theory Spec2Isabelle
  imports Main "HOL-Library.Multiset"
begin

section \<open>The tables read and written by BalanceService\<close>

text \<open>
  BalanceService talks to the database through SQL text only. Each table is modelled
  with the columns the statements mention. Ledger tables are lists of rows (a SQL table
  is a bag of rows); the \<open>balance\<close> table is keyed by its primary key \<open>user_id\<close>, so it
  is a map from user id to the remaining columns.
\<close>

record transaction_row =
  t_id :: int
  t_fromId :: int

record sub_transaction =
  st_id :: int
  st_transactionId :: int
  st_toId :: int

record sub_transaction_row =
  str_subTransactionId :: int
  str_amount :: int
  str_productRevision :: int
  str_productProduct :: int

record product_revision =
  pr_revision :: int
  pr_productId :: int
  pr_priceInclVat :: int

text \<open>A transfer may lack either side: \<open>fromId\<close> and \<open>toId\<close> are nullable columns.\<close>

record transfer =
  tf_id :: int
  tf_fromId :: "int option"
  tf_toId :: "int option"
  tf_amount :: int

record balance_row =
  b_amount :: int
  b_lastTransaction :: int
  b_lastTransfer :: int

record database =
  transactions :: "transaction_row list"
  sub_transactions :: "sub_transaction list"
  sub_transaction_rows :: "sub_transaction_row list"
  product_revisions :: "product_revision list"
  transfers :: "transfer list"
  users :: "int list"  \<comment> \<open>the \<open>id\<close> column of table \<open>user\<close>\<close>
  balance :: "int \<rightharpoonup> balance_row"

section \<open>SQL building blocks\<close>

text \<open>\<open>max\<close> and \<open>sum\<close> skip NULLs and are NULL when no value is left.\<close>

fun sql_max :: "int option list \<Rightarrow> int option" where
  "sql_max [] = None"
| "sql_max (None # xs) = sql_max xs"
| "sql_max (Some x # xs) = (case sql_max xs of None \<Rightarrow> Some x | Some m \<Rightarrow> Some (max x m))"

fun sql_sum :: "int option list \<Rightarrow> int option" where
  "sql_sum [] = None"
| "sql_sum (None # xs) = sql_sum xs"
| "sql_sum (Some x # xs) = (case sql_sum xs of None \<Rightarrow> Some x | Some s \<Rightarrow> Some (x + s))"

text \<open>\<open>count(c)\<close> counts the rows whose \<open>c\<close> is not NULL.\<close>

definition sql_count :: "int option list \<Rightarrow> nat" where
  "sql_count xs = length (filter (\<lambda>x. x \<noteq> None) xs)"

definition coalesce :: "'a option \<Rightarrow> 'a \<Rightarrow> 'a" where
  "coalesce x d = (case x of None \<Rightarrow> d | Some v \<Rightarrow> v)"

text \<open>\<open>x IN (...)\<close> for a nullable \<open>x\<close>: NULL is in no list.\<close>

definition sql_in :: "int option \<Rightarrow> int list \<Rightarrow> bool" where
  "sql_in x xs = (case x of None \<Rightarrow> False | Some v \<Rightarrow> v \<in> set xs)"

text \<open>The optional \<open>IN\<close> filter that getBalances appends when \<open>ids !== undefined\<close>.\<close>

definition opt_in :: "int option \<Rightarrow> int list option \<Rightarrow> bool" where
  "opt_in x ids = (case ids of None \<Rightarrow> True | Some xs \<Rightarrow> sql_in x xs)"

text \<open>\<open>x is not NULL\<close>, as a generator: the value when there is one.\<close>

definition not_null :: "'a option \<Rightarrow> 'a list" where
  "not_null x = (case x of None \<Rightarrow> [] | Some v \<Rightarrow> [v])"

text \<open>
  \<open>left join balance b on k = b.user_id\<close>: \<open>user_id\<close> is the primary key, so the join
  yields exactly one row, with \<open>b\<close> NULL when no snapshot exists (or \<open>k\<close> is NULL).
\<close>

definition left_join_balance :: "database \<Rightarrow> int option \<Rightarrow> balance_row option" where
  "left_join_balance d k = (case k of None \<Rightarrow> None | Some u \<Rightarrow> balance d u)"

text \<open>
  \<open>l left join (...) as moneys on moneys.id = l.id\<close>, seen from one left row: the
  matching values, or a single NULL when nothing matches.
\<close>

definition left_join_values :: "int list \<Rightarrow> int option list" where
  "left_join_values vs = (if vs = [] then [None] else map Some vs)"

text \<open>\<open>select id, sum(amount) ... group by id\<close> over rows with non-NULL amounts.\<close>

definition group_sum :: "(int \<times> int) list \<Rightarrow> (int \<times> int) list" where
  "group_sum moneys =
     map (\<lambda>k. (k, sum_list [a. (i, a) \<leftarrow> moneys, i = k])) (remdups (map fst moneys))"

text \<open>\<open>REPLACE INTO balance\<close>: each selected row replaces the row with its key.\<close>

definition replace_into_balance ::
  "(int \<rightharpoonup> balance_row) \<Rightarrow> (int \<times> balance_row) list \<Rightarrow> (int \<rightharpoonup> balance_row)" where
  "replace_into_balance m rows = fold (\<lambda>(k, b) m'. m'(k \<mapsto> b)) rows m"

section \<open>updateBalances\<close>

text \<open>
  The first statement: \<open>max(id)\<close> of each ledger, each united with a literal 0.
\<close>

definition lastIds :: "database \<Rightarrow> int option \<times> int option" where
  "lastIds d =
     (let rows = [(sql_max (map (\<lambda>t. Some (t_id t)) (transactions d)), Some 0),
                  (Some 0, sql_max (map (\<lambda>f. Some (tf_id f)) (transfers d)))]
      in (sql_max (map fst rows), sql_max (map snd rows)))"

text \<open>The derived table \<open>moneys\<close> of the branch without \<open>params.ids\<close>.\<close>

definition moneys_all :: "database \<Rightarrow> int \<Rightarrow> int \<Rightarrow> (int \<times> int) list" where
  "moneys_all d transactionMax transferMax =
     [(t_fromId t, str_amount str * pr_priceInclVat pr * -1).
        t \<leftarrow> transactions d,
        st \<leftarrow> sub_transactions d, t_id t = st_transactionId st,
        str \<leftarrow> sub_transaction_rows d, st_id st = str_subTransactionId str,
        pr \<leftarrow> product_revisions d,
        str_productRevision str = pr_revision pr \<and> str_productProduct str = pr_productId pr,
        t_id t \<le> transactionMax]
   @ [(st_toId st2, str_amount str2 * pr_priceInclVat pr2).
        st2 \<leftarrow> sub_transactions d,
        str2 \<leftarrow> sub_transaction_rows d, st_id st2 = str_subTransactionId str2,
        pr2 \<leftarrow> product_revisions d,
        str_productRevision str2 = pr_revision pr2 \<and> str_productProduct str2 = pr_productId pr2,
        st_transactionId st2 \<le> transactionMax]
   @ [(a, tf_amount t2 * -1).
        t2 \<leftarrow> transfers d, tf_id t2 \<le> transferMax, a \<leftarrow> not_null (tf_fromId t2)]
   @ [(b, tf_amount t3).
        t3 \<leftarrow> transfers d, tf_id t3 \<le> transferMax, b \<leftarrow> not_null (tf_toId t3)]"

text \<open>The derived table \<open>moneys\<close> of the branch with \<open>params.ids\<close>.\<close>

definition moneys_in :: "int list \<Rightarrow> database \<Rightarrow> int \<Rightarrow> int \<Rightarrow> (int \<times> int) list" where
  "moneys_in ids d transactionMax transferMax =
     [(t_fromId t, str_amount str * pr_priceInclVat pr * -1).
        t \<leftarrow> transactions d,
        st \<leftarrow> sub_transactions d, t_id t = st_transactionId st,
        str \<leftarrow> sub_transaction_rows d, st_id st = str_subTransactionId str,
        pr \<leftarrow> product_revisions d,
        str_productRevision str = pr_revision pr \<and> str_productProduct str = pr_productId pr,
        t_id t \<le> transactionMax \<and> sql_in (Some (t_fromId t)) ids]
   @ [(st_toId st2, str_amount str2 * pr_priceInclVat pr2).
        st2 \<leftarrow> sub_transactions d,
        str2 \<leftarrow> sub_transaction_rows d, st_id st2 = str_subTransactionId str2,
        pr2 \<leftarrow> product_revisions d,
        str_productRevision str2 = pr_revision pr2 \<and> str_productProduct str2 = pr_productId pr2,
        st_transactionId st2 \<le> transactionMax \<and> sql_in (Some (st_toId st2)) ids]
   @ [(a, tf_amount t2 * -1).
        t2 \<leftarrow> transfers d, tf_id t2 \<le> transferMax \<and> sql_in (tf_fromId t2) ids,
        a \<leftarrow> not_null (tf_fromId t2)]
   @ [(b, tf_amount t2).
        t2 \<leftarrow> transfers d, tf_id t2 \<le> transferMax \<and> sql_in (tf_toId t2) ids,
        b \<leftarrow> not_null (tf_toId t2)]"

text \<open>The interface \<open>BalanceParameters\<close>, with its one field \<open>ids\<close>.\<close>

record BalanceParameters =
  params_ids :: "int list"

text \<open>
  The rows that \<open>REPLACE INTO balance select id, sum(amount), transactionMax, transferMax
  ... group by moneys.id\<close> selects, keyed by \<open>id\<close>.
\<close>

definition refresh_rows ::
  "BalanceParameters option \<Rightarrow> database \<Rightarrow> int \<Rightarrow> int \<Rightarrow> (int \<times> balance_row) list" where
  "refresh_rows params d transactionMax transferMax =
     map (\<lambda>(k, total).
            (k, \<lparr>b_amount = total, b_lastTransaction = transactionMax,
                 b_lastTransfer = transferMax\<rparr>))
         (group_sum (case params of
                       Some p \<Rightarrow> moneys_in (params_ids p) d transactionMax transferMax
                     | None \<Rightarrow> moneys_all d transactionMax transferMax))"

text \<open>
  \<open>transactionMax\<close> and \<open>transferMax\<close> are spliced into the statement text and bound to
  its four placeholders. Were one of them NULL, every \<open>id <= NULL\<close> would fail and the
  statement would select no row.
\<close>

definition updateBalances :: "BalanceParameters option \<Rightarrow> database \<Rightarrow> database" where
  "updateBalances params d =
     (case lastIds d of
        (Some transactionMax, Some transferMax) \<Rightarrow>
          d\<lparr>balance := replace_into_balance (balance d)
                          (refresh_rows params d transactionMax transferMax)\<rparr>
      | _ \<Rightarrow> d)"

text \<open>The keys of the rows that the statement of updateBalances writes.\<close>

definition refreshed_subjects :: "BalanceParameters option \<Rightarrow> database \<Rightarrow> int list" where
  "refreshed_subjects params d =
     (case lastIds d of
        (Some transactionMax, Some transferMax) \<Rightarrow>
          map fst (refresh_rows params d transactionMax transferMax)
      | _ \<Rightarrow> [])"

section \<open>clearBalanceCache\<close>

text \<open>The argument is \<open>number | number[] | undefined\<close>.\<close>

datatype ids_arg = One int | Many "int list"

text \<open>JavaScript truthiness of the argument: \<open>undefined\<close> and the number 0 are falsy.\<close>

fun truthy :: "ids_arg option \<Rightarrow> bool" where
  "truthy None = False"
| "truthy (Some (One n)) = (n \<noteq> 0)"
| "truthy (Some (Many xs)) = True"

text \<open>\<open>Balance.delete(ids)\<close> deletes the rows whose primary key is among \<open>ids\<close>.\<close>

fun Balance_delete :: "ids_arg \<Rightarrow> (int \<rightharpoonup> balance_row) \<Rightarrow> (int \<rightharpoonup> balance_row)" where
  "Balance_delete (One n) m = m(n := None)"
| "Balance_delete (Many xs) m = (\<lambda>k. if k \<in> set xs then None else m k)"

definition clearBalanceCache :: "ids_arg option \<Rightarrow> database \<Rightarrow> database" where
  "clearBalanceCache ids d =
     (if truthy ids
      then (case ids of Some a \<Rightarrow> d\<lparr>balance := Balance_delete a (balance d)\<rparr> | None \<Rightarrow> d)
      else d\<lparr>balance := Map.empty\<rparr>)"

section \<open>getBalances and getBalance\<close>

text \<open>
  The innermost derived table \<open>moneys\<close>: the deltas newer than the checkpoints of the
  subject's snapshot, each \<open>select\<close> with the \<open>IN\<close> filter when \<open>ids\<close> is given. The
  transfer sides are not filtered for NULL here, so \<open>id\<close> is nullable.
\<close>

definition moneys_pending :: "int list option \<Rightarrow> database \<Rightarrow> (int option \<times> int) list" where
  "moneys_pending ids d =
     [(Some (t_fromId t), str_amount str * pr_priceInclVat pr * -1).
        t \<leftarrow> transactions d,
        b1 \<leftarrow> [left_join_balance d (Some (t_fromId t))],
        st \<leftarrow> sub_transactions d, t_id t = st_transactionId st,
        str \<leftarrow> sub_transaction_rows d, st_id st = str_subTransactionId str,
        pr \<leftarrow> product_revisions d,
        str_productRevision str = pr_revision pr \<and> str_productProduct str = pr_productId pr,
        t_id t > coalesce (map_option b_lastTransaction b1) 0
          \<and> opt_in (Some (t_fromId t)) ids]
   @ [(Some (st_toId st2), str_amount str2 * pr_priceInclVat pr2).
        st2 \<leftarrow> sub_transactions d,
        b2 \<leftarrow> [left_join_balance d (Some (st_toId st2))],
        str2 \<leftarrow> sub_transaction_rows d, st_id st2 = str_subTransactionId str2,
        pr2 \<leftarrow> product_revisions d,
        str_productRevision str2 = pr_revision pr2 \<and> str_productProduct str2 = pr_productId pr2,
        st_transactionId st2 > coalesce (map_option b_lastTransaction b2) 0
          \<and> opt_in (Some (st_toId st2)) ids]
   @ [(tf_fromId t2, tf_amount t2 * -1).
        t2 \<leftarrow> transfers d,
        b3 \<leftarrow> [left_join_balance d (tf_fromId t2)],
        tf_id t2 > coalesce (map_option b_lastTransfer b3) 0 \<and> opt_in (tf_fromId t2) ids]
   @ [(tf_toId t3, tf_amount t3).
        t3 \<leftarrow> transfers d,
        b4 \<leftarrow> [left_join_balance d (tf_toId t3)],
        tf_id t3 > coalesce (map_option b_lastTransfer b4) 0 \<and> opt_in (tf_toId t3) ids]"

text \<open>
  \<open>user left join (...) as moneys on moneys.id = user.id\<close>, filtered on \<open>user.id\<close>
  when \<open>ids\<close> is given: pairs of \<open>user.id\<close> and \<open>moneys.totalValue\<close>.
\<close>

definition user_join_moneys :: "int list option \<Rightarrow> database \<Rightarrow> (int \<times> int option) list" where
  "user_join_moneys ids d =
     [(u, v).
        u \<leftarrow> users d, opt_in (Some u) ids,
        v \<leftarrow> left_join_values [a. (i, a) \<leftarrow> moneys_pending ids d, i = Some u]]"

text \<open>
  The derived table \<open>moneys2\<close>: the join grouped by \<open>user.id\<close>, with columns \<open>id\<close>,
  \<open>totalValue\<close> and \<open>count\<close>.
\<close>

definition moneys2 :: "int list option \<Rightarrow> database \<Rightarrow> (int \<times> int \<times> nat) list" where
  "moneys2 ids d =
     (let joined = user_join_moneys ids d
      in map (\<lambda>k. (k,
                    coalesce (sql_sum [v. (u, v) \<leftarrow> joined, u = k]) 0,
                    sql_count [v. (u, v) \<leftarrow> joined, u = k]))
             (remdups (map fst joined)))"

text \<open>A row of the result set of the whole query.\<close>

record raw_balance =
  raw_id :: int
  raw_amount :: int
  raw_count :: nat
  raw_lastTransaction :: "int option"
  raw_lastTransfer :: "int option"
  raw_cachedAmount :: "int option"

definition balances_query :: "int list option \<Rightarrow> database \<Rightarrow> raw_balance list" where
  "balances_query ids d =
     map (\<lambda>(k, totalValue, cnt).
            let b5 = left_join_balance d (Some k)
            in \<lparr>raw_id = k,
                raw_amount = totalValue + coalesce (map_option b_amount b5) 0,
                raw_count = cnt,
                raw_lastTransaction = map_option b_lastTransaction b5,
                raw_lastTransfer = map_option b_lastTransfer b5,
                raw_cachedAmount = map_option b_amount b5\<rparr>)
         (moneys2 ids d)"

text \<open>
  \<open>amount\<close> is the number of minor currency units that
  \<open>DineroTransformer.Instance.from(...).toObject()\<close> wraps; the transformer itself is
  not part of the service and the wrapping is left out.
\<close>

record BalanceResponse =
  r_id :: int
  r_amount :: int
  r_lastTransactionId :: "int option"
  r_lastTransferId :: "int option"

definition asBalanceResponse :: "raw_balance \<Rightarrow> BalanceResponse" where
  "asBalanceResponse rawBalance =
     \<lparr>r_id = raw_id rawBalance,
      r_amount = raw_amount rawBalance,
      r_lastTransactionId = raw_lastTransaction rawBalance,
      r_lastTransferId = raw_lastTransfer rawBalance\<rparr>"

text \<open>
  The two ways the guard after the query can fail: reading \<open>.amount\<close> of
  \<open>balances[0]\<close> when that is \<open>undefined\<close>, and the explicit \<open>throw\<close>.
\<close>

datatype error = TypeError | NoBalanceReturned

text \<open>
  \<open>rawBalance.amount === undefined\<close>: a column of a result row holds a value or
  \<open>null\<close>, and \<open>amount\<close> is a sum of coalesced values.
\<close>

definition amount_undefined :: "raw_balance \<Rightarrow> bool" where
  "amount_undefined rawBalance = False"

text \<open>
  \<open>balances.length === 0 && balances[0].amount === undefined\<close>: the right operand is
  evaluated exactly when the list is empty, where \<open>balances[0]\<close> is \<open>undefined\<close> and
  reading its \<open>amount\<close> raises a TypeError. With an empty \<open>ids\<close> the statement text
  holds \<open>IN (  )\<close>, which selects nothing where the engine accepts it.
\<close>

definition getBalances :: "int list option \<Rightarrow> database \<Rightarrow> error + BalanceResponse list" where
  "getBalances ids d =
     (let balances = balances_query ids d
      in if length balances = 0
         then (case balances of
                 [] \<Rightarrow> Inl TypeError
               | b # _ \<Rightarrow>
                   if amount_undefined b then Inl NoBalanceReturned
                   else Inr (map asBalanceResponse balances))
         else Inr (map asBalanceResponse balances))"

text \<open>
  \<open>(await this.getBalances([id]))[0]\<close>: index 0 of an empty array is \<open>undefined\<close>,
  here \<open>None\<close>.
\<close>

definition getBalance :: "int \<Rightarrow> database \<Rightarrow> error + BalanceResponse option" where
  "getBalance i d =
     (case getBalances (Some [i]) d of
        Inl e \<Rightarrow> Inl e
      | Inr rs \<Rightarrow> Inr (case rs of [] \<Rightarrow> None | r # _ \<Rightarrow> Some r))"

section \<open>Ledger deltas, as the specification describes them\<close>

text \<open>
  The specification speaks of deltas: signed amounts attributed to a subject by one
  ledger entry. The definitions of this section follow its words, not the SQL text, and
  the theorems below compare the two.
\<close>

record ledger_delta =
  subjectId :: int
  ledgerId :: int
  signedAmount :: int

text \<open>
  A sale line is a sub-transaction row together with the sub-transaction and the
  transaction it belongs to and the product revision it references.
\<close>

type_synonym sale_line =
  "transaction_row \<times> sub_transaction \<times> sub_transaction_row \<times> product_revision"

definition sale_lines :: "database \<Rightarrow> sale_line list" where
  "sale_lines d =
     [(t, st, str, pr).
        t \<leftarrow> transactions d,
        st \<leftarrow> sub_transactions d, t_id t = st_transactionId st,
        str \<leftarrow> sub_transaction_rows d, st_id st = str_subTransactionId str,
        pr \<leftarrow> product_revisions d,
        str_productRevision str = pr_revision pr \<and> str_productProduct str = pr_productId pr]"

text \<open>The payer of the transaction owes quantity times locked unit price.\<close>

fun payer_delta :: "sale_line \<Rightarrow> ledger_delta" where
  "payer_delta (t, st, str, pr) =
     \<lparr>subjectId = t_fromId t, ledgerId = t_id t,
      signedAmount = - (str_amount str * pr_priceInclVat pr)\<rparr>"

text \<open>The recipient of the sub-transaction is owed the same amount.\<close>

fun recipient_delta :: "sale_line \<Rightarrow> ledger_delta" where
  "recipient_delta (t, st, str, pr) =
     \<lparr>subjectId = st_toId st, ledgerId = t_id t,
      signedAmount = str_amount str * pr_priceInclVat pr\<rparr>"

definition transaction_deltas :: "database \<Rightarrow> ledger_delta list" where
  "transaction_deltas d =
     map payer_delta (sale_lines d) @ map recipient_delta (sale_lines d)"

text \<open>A transfer gives its source, if any, minus the amount and its destination, if any, plus the amount.\<close>

definition transfer_deltas :: "database \<Rightarrow> ledger_delta list" where
  "transfer_deltas d =
     concat (map (\<lambda>f. case tf_fromId f of
                         None \<Rightarrow> []
                       | Some a \<Rightarrow> [\<lparr>subjectId = a, ledgerId = tf_id f,
                                    signedAmount = - tf_amount f\<rparr>])
                 (transfers d))
   @ concat (map (\<lambda>f. case tf_toId f of
                         None \<Rightarrow> []
                       | Some b \<Rightarrow> [\<lparr>subjectId = b, ledgerId = tf_id f,
                                    signedAmount = tf_amount f\<rparr>])
                 (transfers d))"

definition delta_entry :: "ledger_delta \<Rightarrow> int \<times> int" where
  "delta_entry \<delta> = (subjectId \<delta>, signedAmount \<delta>)"

definition delta_total :: "(ledger_delta \<Rightarrow> bool) \<Rightarrow> ledger_delta list \<Rightarrow> int" where
  "delta_total P ds = sum_list (map signedAmount (filter P ds))"

text \<open>The sum of a subject's deltas up to a pair of checkpoints, and after it.\<close>

definition aggregate_upto :: "database \<Rightarrow> int \<Rightarrow> int \<Rightarrow> int \<Rightarrow> int" where
  "aggregate_upto d s T F =
     delta_total (\<lambda>\<delta>. subjectId \<delta> = s \<and> ledgerId \<delta> \<le> T) (transaction_deltas d)
   + delta_total (\<lambda>\<delta>. subjectId \<delta> = s \<and> ledgerId \<delta> \<le> F) (transfer_deltas d)"

definition pending_after :: "database \<Rightarrow> int \<Rightarrow> int \<Rightarrow> int \<Rightarrow> int" where
  "pending_after d s T F =
     delta_total (\<lambda>\<delta>. subjectId \<delta> = s \<and> T < ledgerId \<delta>) (transaction_deltas d)
   + delta_total (\<lambda>\<delta>. subjectId \<delta> = s \<and> F < ledgerId \<delta>) (transfer_deltas d)"


text \<open>The largest id of a ledger or 0, whichever is larger; 0 for an empty ledger.\<close>

definition max_transaction_id :: "database \<Rightarrow> int" where
  "max_transaction_id d = Max (set (0 # map t_id (transactions d)))"

definition max_transfer_id :: "database \<Rightarrow> int" where
  "max_transfer_id d = Max (set (0 # map tf_id (transfers d)))"

text \<open>The snapshot of a subject, with the implicit zero snapshot for a missing row.\<close>

definition snapshot :: "database \<Rightarrow> int \<Rightarrow> balance_row" where
  "snapshot d s =
     (case balance d s of
        None \<Rightarrow> \<lparr>b_amount = 0, b_lastTransaction = 0, b_lastTransfer = 0\<rparr>
      | Some b \<Rightarrow> b)"

text \<open>
  Boundary correctness of a subject's snapshot: the cached amount is the sum of the
  subject's deltas up to the snapshot's checkpoints.
\<close>

definition snapshot_exact :: "database \<Rightarrow> int \<Rightarrow> bool" where
  "snapshot_exact d s =
     (b_amount (snapshot d s)
        = aggregate_upto d s (b_lastTransaction (snapshot d s)) (b_lastTransfer (snapshot d s)))"

section \<open>Constraints of the schema\<close>

text \<open>
  \<open>sub_transaction.transactionId\<close> is a foreign key into \<open>transaction\<close>, whose \<open>id\<close> is
  its primary key: each sub-transaction has exactly one transaction.
\<close>

definition sub_transaction_fk :: "database \<Rightarrow> bool" where
  "sub_transaction_fk d =
     list_all (\<lambda>st. length (filter (\<lambda>t. t_id t = st_transactionId st) (transactions d)) = 1)
              (sub_transactions d)"

text \<open>Ledger ids are generated keys, counted from 1.\<close>

definition ledger_ids_positive :: "database \<Rightarrow> bool" where
  "ledger_ids_positive d =
     (list_all (\<lambda>t. 0 < t_id t) (transactions d) \<and> list_all (\<lambda>f. 0 < tf_id f) (transfers d))"

section \<open>A common shape of the four-part union\<close>

text \<open>
  The three statements build the same union of four selects and differ in the
  \<open>where\<close> clauses only. \<open>moneys_where\<close> is that union with the clause as a parameter:
  \<open>PT subject id\<close> for the two transaction parts, \<open>PF subject id\<close> for the two transfer
  parts. It is a device of the proofs; the tables above are the model of the code.
\<close>

definition moneys_where ::
  "database \<Rightarrow> (int \<Rightarrow> int \<Rightarrow> bool) \<Rightarrow> (int \<Rightarrow> int \<Rightarrow> bool) \<Rightarrow> (int \<times> int) list" where
  "moneys_where d PT PF =
     [(t_fromId t, str_amount str * pr_priceInclVat pr * -1).
        t \<leftarrow> transactions d,
        st \<leftarrow> sub_transactions d, t_id t = st_transactionId st,
        str \<leftarrow> sub_transaction_rows d, st_id st = str_subTransactionId str,
        pr \<leftarrow> product_revisions d,
        str_productRevision str = pr_revision pr \<and> str_productProduct str = pr_productId pr,
        PT (t_fromId t) (t_id t)]
   @ [(st_toId st, str_amount str * pr_priceInclVat pr).
        st \<leftarrow> sub_transactions d,
        str \<leftarrow> sub_transaction_rows d, st_id st = str_subTransactionId str,
        pr \<leftarrow> product_revisions d,
        str_productRevision str = pr_revision pr \<and> str_productProduct str = pr_productId pr,
        PT (st_toId st) (st_transactionId st)]
   @ [(a, tf_amount f * -1). f \<leftarrow> transfers d, a \<leftarrow> not_null (tf_fromId f), PF a (tf_id f)]
   @ [(b, tf_amount f). f \<leftarrow> transfers d, b \<leftarrow> not_null (tf_toId f), PF b (tf_id f)]"

section \<open>An example ledger\<close>

text \<open>
  Subject 10 buys 3 units at 150 from a sale owned by subject 20 (the product has a
  later revision at 175); a transfer of 1000 goes from 30 to 40; a deposit of 500 reaches
  50 from outside. Subject 60 is a user without ledger history; 99 is not a user.
\<close>

definition example_db :: database where
  "example_db =
     \<lparr>transactions = [\<lparr>t_id = 1, t_fromId = 10\<rparr>],
      sub_transactions = [\<lparr>st_id = 1, st_transactionId = 1, st_toId = 20\<rparr>],
      sub_transaction_rows =
        [\<lparr>str_subTransactionId = 1, str_amount = 3, str_productRevision = 1,
          str_productProduct = 7\<rparr>],
      product_revisions =
        [\<lparr>pr_revision = 1, pr_productId = 7, pr_priceInclVat = 150\<rparr>,
         \<lparr>pr_revision = 2, pr_productId = 7, pr_priceInclVat = 175\<rparr>],
      transfers =
        [\<lparr>tf_id = 1, tf_fromId = Some 30, tf_toId = Some 40, tf_amount = 1000\<rparr>,
         \<lparr>tf_id = 2, tf_fromId = None, tf_toId = Some 50, tf_amount = 500\<rparr>],
      users = [10, 20, 30, 40, 50, 60],
      balance = Map.empty\<rparr>"

text \<open>
  The same ledger after a refresh and one more sale: subject 20 buys 1 unit of the later
  revision, at 175, from subject 10. The snapshots are those of the refresh.
\<close>

definition example_db_later :: database where
  "example_db_later =
     example_db
       \<lparr>transactions := transactions example_db @ [\<lparr>t_id = 2, t_fromId = 20\<rparr>],
        sub_transactions :=
          sub_transactions example_db @ [\<lparr>st_id = 2, st_transactionId = 2, st_toId = 10\<rparr>],
        sub_transaction_rows :=
          sub_transaction_rows example_db
            @ [\<lparr>str_subTransactionId = 2, str_amount = 1, str_productRevision = 2,
                str_productProduct = 7\<rparr>],
        balance := balance (updateBalances None example_db)\<rparr>"

section \<open>The union of the code and the deltas of the specification\<close>

lemma sum_list_swap:
  fixes f :: "'a \<Rightarrow> 'b \<Rightarrow> 'c::comm_monoid_add"
  shows "(\<Sum>x\<leftarrow>xs. \<Sum>y\<leftarrow>ys. f x y) = (\<Sum>y\<leftarrow>ys. \<Sum>x\<leftarrow>xs. f x y)"
  by (induction xs) (simp_all add: sum_list_addf)

lemma sum_list_if_const:
  fixes M :: "'c::comm_monoid_add"
  shows "(\<Sum>x\<leftarrow>xs. if P x then M else 0) = sum_list (replicate (length (filter P xs)) M)"
  by (induction xs) simp_all

lemma sum_list_if_single:
  fixes M :: "'c::comm_monoid_add"
  assumes "length (filter P xs) = 1"
  shows "(\<Sum>x\<leftarrow>xs. if P x then M else 0) = M"
  by (simp add: sum_list_if_const assms)

lemma fk_swap:
  assumes fk: "\<forall>y\<in>set ys. length (filter (\<lambda>x. key x = ref y) xs) = 1"
  shows "mset (concat (map (\<lambda>x. concat (map (\<lambda>y. if key x = ref y then F y (key x) else []) ys)) xs))
       = mset (concat (map (\<lambda>y. F y (ref y)) ys))"
proof -
  have "mset (concat (map (\<lambda>x. concat (map (\<lambda>y. if key x = ref y then F y (key x) else []) ys)) xs))
      = (\<Sum>x\<leftarrow>xs. \<Sum>y\<leftarrow>ys. if key x = ref y then mset (F y (ref y)) else {#})"
    by (simp add: mset_concat comp_def if_distrib [of mset] cong: if_cong)
  also have "\<dots> = (\<Sum>y\<leftarrow>ys. \<Sum>x\<leftarrow>xs. if key x = ref y then mset (F y (ref y)) else {#})"
    by (rule sum_list_swap)
  also have "\<dots> = (\<Sum>y\<leftarrow>ys. mset (F y (ref y)))"
    by (rule arg_cong [where f = sum_list], rule map_cong [OF refl])
       (simp add: sum_list_if_single fk)
  finally show ?thesis by (simp add: mset_concat comp_def)
qed

lemma concat_map_cong: "(\<And>x. x \<in> set xs \<Longrightarrow> f x = g x) \<Longrightarrow> concat (map f xs) = concat (map g xs)"
  by (simp cong: map_cong)

lemma guard_not_null:
  "(if c then map g (not_null x) else []) = concat (map (\<lambda>a. if c then [g a] else []) (not_null x))"
  by (cases x) (simp_all add: not_null_def)

lemma moneys_all_where:
  "moneys_all d T F = moneys_where d (\<lambda>_ k. k \<le> T) (\<lambda>_ k. k \<le> F)"
  unfolding moneys_all_def moneys_where_def
  by (simp add: guard_not_null)

lemma guard_not_null_in:
  "(if c \<and> sql_in x ids then map g (not_null x) else [])
   = concat (map (\<lambda>a. if c \<and> a \<in> set ids then [g a] else []) (not_null x))"
  by (cases x) (simp_all add: not_null_def sql_in_def)

lemma sql_in_Some: "sql_in (Some v) xs = (v \<in> set xs)"
  by (simp add: sql_in_def)

lemma moneys_in_where:
  "moneys_in ids d T F = moneys_where d (\<lambda>u k. k \<le> T \<and> u \<in> set ids) (\<lambda>u k. k \<le> F \<and> u \<in> set ids)"
  unfolding moneys_in_def moneys_where_def
  by (simp add: guard_not_null_in sql_in_Some cong del: if_weak_cong)

lemma payer_part:
  "map delta_entry (filter (\<lambda>\<delta>. PT (subjectId \<delta>) (ledgerId \<delta>)) (map payer_delta (sale_lines d)))
   = [(t_fromId t, str_amount str * pr_priceInclVat pr * -1).
        t \<leftarrow> transactions d,
        st \<leftarrow> sub_transactions d, t_id t = st_transactionId st,
        str \<leftarrow> sub_transaction_rows d, st_id st = str_subTransactionId str,
        pr \<leftarrow> product_revisions d,
        str_productRevision str = pr_revision pr \<and> str_productProduct str = pr_productId pr,
        PT (t_fromId t) (t_id t)]"
  unfolding sale_lines_def
  by (simp add: filter_concat map_concat comp_def filter_map delta_entry_def if_distrib [of "map _"] if_distrib [of "filter _"]
         cong del: if_weak_cong)

lemma recipient_part_list:
  "map delta_entry (filter (\<lambda>\<delta>. PT (subjectId \<delta>) (ledgerId \<delta>)) (map recipient_delta (sale_lines d)))
   = concat (map (\<lambda>t. concat (map (\<lambda>st. if t_id t = st_transactionId st then
        [(st_toId st, str_amount str * pr_priceInclVat pr).
          str \<leftarrow> sub_transaction_rows d, st_id st = str_subTransactionId str,
          pr \<leftarrow> product_revisions d,
          str_productRevision str = pr_revision pr \<and> str_productProduct str = pr_productId pr,
          PT (st_toId st) (t_id t)] else []) (sub_transactions d))) (transactions d))"
  unfolding sale_lines_def
  by (simp add: filter_concat map_concat comp_def filter_map delta_entry_def if_distrib [of "map _"] if_distrib [of "filter _"]
         cong del: if_weak_cong)

lemma recipient_part:
  assumes "sub_transaction_fk d"
  shows "mset (map delta_entry (filter (\<lambda>\<delta>. PT (subjectId \<delta>) (ledgerId \<delta>)) (map recipient_delta (sale_lines d))))
   = mset [(st_toId st, str_amount str * pr_priceInclVat pr).
        st \<leftarrow> sub_transactions d,
        str \<leftarrow> sub_transaction_rows d, st_id st = str_subTransactionId str,
        pr \<leftarrow> product_revisions d,
        str_productRevision str = pr_revision pr \<and> str_productProduct str = pr_productId pr,
        PT (st_toId st) (st_transactionId st)]"
proof -
  have fk: "\<forall>st\<in>set (sub_transactions d).
              length (filter (\<lambda>t. t_id t = st_transactionId st) (transactions d)) = 1"
    using assms by (simp add: sub_transaction_fk_def list_all_iff)
  show ?thesis
    unfolding recipient_part_list
    by (rule fk_swap [OF fk])
qed

lemma transfer_part:
  "map delta_entry (filter (\<lambda>\<delta>. PF (subjectId \<delta>) (ledgerId \<delta>)) (transfer_deltas d))
   = [(a, tf_amount f * -1). f \<leftarrow> transfers d, a \<leftarrow> not_null (tf_fromId f), PF a (tf_id f)]
   @ [(b, tf_amount f). f \<leftarrow> transfers d, b \<leftarrow> not_null (tf_toId f), PF b (tf_id f)]"
proof -
  have src: "map delta_entry (filter (\<lambda>\<delta>. PF (subjectId \<delta>) (ledgerId \<delta>))
               (case tf_fromId f of None \<Rightarrow> []
                | Some a \<Rightarrow> [\<lparr>subjectId = a, ledgerId = tf_id f, signedAmount = - tf_amount f\<rparr>]))
           = [(a, tf_amount f * -1). a \<leftarrow> not_null (tf_fromId f), PF a (tf_id f)]" for f
    by (cases "tf_fromId f") (simp_all add: not_null_def delta_entry_def)
  have dst: "map delta_entry (filter (\<lambda>\<delta>. PF (subjectId \<delta>) (ledgerId \<delta>))
               (case tf_toId f of None \<Rightarrow> []
                | Some b \<Rightarrow> [\<lparr>subjectId = b, ledgerId = tf_id f, signedAmount = tf_amount f\<rparr>]))
           = [(b, tf_amount f). b \<leftarrow> not_null (tf_toId f), PF b (tf_id f)]" for f
    by (cases "tf_toId f") (simp_all add: not_null_def delta_entry_def)
  show ?thesis
    unfolding transfer_deltas_def
    by (simp add: filter_concat map_concat comp_def src dst)
qed

lemma moneys_where_deltas:
  assumes "sub_transaction_fk d"
  shows "mset (moneys_where d PT PF)
       = mset (map delta_entry (filter (\<lambda>\<delta>. PT (subjectId \<delta>) (ledgerId \<delta>)) (transaction_deltas d)))
       + mset (map delta_entry (filter (\<lambda>\<delta>. PF (subjectId \<delta>) (ledgerId \<delta>)) (transfer_deltas d)))"
  by (simp only: moneys_where_def transaction_deltas_def mset_append filter_append map_append
        payer_part recipient_part [OF assms] transfer_part add.assoc)






section \<open>What updateBalances writes\<close>

lemma sql_max_Some:
  "sql_max (map (\<lambda>x. Some (f x)) xs) = (if xs = [] then None else Some (Max (f ` set xs)))"
  by (induction xs) (auto simp: max.commute)

lemma lastIds_max:
  "lastIds d = (Some (max_transaction_id d), Some (max_transfer_id d))"
  unfolding lastIds_def max_transaction_id_def max_transfer_id_def Let_def
  by (auto simp add: sql_max_Some max.commute)

lemma replace_into_balance_map_add:
  "replace_into_balance m rows = m ++ map_of (rev rows)"
  unfolding replace_into_balance_def
  by (induction rows arbitrary: m) (auto simp: fun_eq_iff map_add_def split: option.splits)

lemma map_of_keyed:
  "map_of (map (\<lambda>k. (k, f k)) ks) k = (if k \<in> set ks then Some (f k) else None)"
  by (induction ks) auto

lemma replace_into_balance_keyed:
  "replace_into_balance m (map (\<lambda>k. (k, f k)) ks) k = (if k \<in> set ks then Some (f k) else m k)"
  by (simp add: replace_into_balance_map_add rev_map map_of_keyed map_add_def)

lemma refresh_rows_keyed:
  "refresh_rows params d T F =
     map (\<lambda>k. (k, \<lparr>b_amount = sum_list [a. (i, a) \<leftarrow> (case params of
                       Some p \<Rightarrow> moneys_in (params_ids p) d T F
                     | None \<Rightarrow> moneys_all d T F), i = k], b_lastTransaction = T, b_lastTransfer = F\<rparr>))
       (remdups (map fst (case params of
                       Some p \<Rightarrow> moneys_in (params_ids p) d T F
                     | None \<Rightarrow> moneys_all d T F)))"
  by (simp add: refresh_rows_def group_sum_def)


lemma vals_sum_mset:
  "sum_list [a. (i, a) \<leftarrow> rows, i = s]
   = sum_mset (image_mset snd (filter_mset (\<lambda>r. fst r = s) (mset rows)))"
  by (induction rows) auto

lemma delta_total_mset:
  "sum_mset (image_mset snd (filter_mset (\<lambda>r. fst r = s) (mset (map delta_entry (filter P ds)))))
   = delta_total (\<lambda>\<delta>. subjectId \<delta> = s \<and> P \<delta>) ds"
  by (induction ds) (auto simp: delta_total_def delta_entry_def)

lemma delta_total_cong:
  "(\<And>\<delta>. \<delta> \<in> set ds \<Longrightarrow> P \<delta> = Q \<delta>) \<Longrightarrow> delta_total P ds = delta_total Q ds"
  unfolding delta_total_def by (simp cong: filter_cong)

lemma delta_total_subject:
  "delta_total (\<lambda>\<delta>. subjectId \<delta> = s \<and> P (subjectId \<delta>) (ledgerId \<delta>)) ds
   = delta_total (\<lambda>\<delta>. subjectId \<delta> = s \<and> P s (ledgerId \<delta>)) ds"
  by (rule delta_total_cong) auto

lemma moneys_where_total:
  assumes "sub_transaction_fk d"
  shows "sum_list [a. (i, a) \<leftarrow> moneys_where d PT PF, i = s]
       = delta_total (\<lambda>\<delta>. subjectId \<delta> = s \<and> PT s (ledgerId \<delta>)) (transaction_deltas d)
       + delta_total (\<lambda>\<delta>. subjectId \<delta> = s \<and> PF s (ledgerId \<delta>)) (transfer_deltas d)"
proof -
  have "sum_list [a. (i, a) \<leftarrow> moneys_where d PT PF, i = s]
      = delta_total (\<lambda>\<delta>. subjectId \<delta> = s \<and> PT (subjectId \<delta>) (ledgerId \<delta>)) (transaction_deltas d)
      + delta_total (\<lambda>\<delta>. subjectId \<delta> = s \<and> PF (subjectId \<delta>) (ledgerId \<delta>)) (transfer_deltas d)"
    by (simp only: vals_sum_mset moneys_where_deltas [OF assms] filter_union_mset image_mset_union
          sum_mset.union delta_total_mset)
  also have "\<dots> = delta_total (\<lambda>\<delta>. subjectId \<delta> = s \<and> PT s (ledgerId \<delta>)) (transaction_deltas d)
       + delta_total (\<lambda>\<delta>. subjectId \<delta> = s \<and> PF s (ledgerId \<delta>)) (transfer_deltas d)"
    by (simp only: delta_total_subject)
  finally show ?thesis .
qed

lemma moneys_where_ids:
  assumes "sub_transaction_fk d"
  shows "s \<in> set (map fst (moneys_where d PT PF)) \<longleftrightarrow>
         (\<exists>\<delta>\<in>set (transaction_deltas d). subjectId \<delta> = s \<and> PT s (ledgerId \<delta>))
       \<or> (\<exists>\<delta>\<in>set (transfer_deltas d). subjectId \<delta> = s \<and> PF s (ledgerId \<delta>))"
proof -
  have "set (moneys_where d PT PF)
      = set (map delta_entry (filter (\<lambda>\<delta>. PT (subjectId \<delta>) (ledgerId \<delta>)) (transaction_deltas d)))
      \<union> set (map delta_entry (filter (\<lambda>\<delta>. PF (subjectId \<delta>) (ledgerId \<delta>)) (transfer_deltas d)))"
    using arg_cong [OF moneys_where_deltas [OF assms, of PT PF], of set_mset]
    by (simp only: set_mset_union set_mset_mset)
  then have "fst ` set (moneys_where d PT PF)
      = subjectId ` {\<delta> \<in> set (transaction_deltas d). PT (subjectId \<delta>) (ledgerId \<delta>)}
      \<union> subjectId ` {\<delta> \<in> set (transfer_deltas d). PF (subjectId \<delta>) (ledgerId \<delta>)}"
    by (simp add: image_Un image_image delta_entry_def)
  then have "s \<in> fst ` set (moneys_where d PT PF) \<longleftrightarrow>
       s \<in> subjectId ` {\<delta> \<in> set (transaction_deltas d). PT (subjectId \<delta>) (ledgerId \<delta>)}
     \<or> s \<in> subjectId ` {\<delta> \<in> set (transfer_deltas d). PF (subjectId \<delta>) (ledgerId \<delta>)}"
    by simp
  also have "\<dots> \<longleftrightarrow> (\<exists>\<delta>\<in>set (transaction_deltas d). subjectId \<delta> = s \<and> PT s (ledgerId \<delta>))
       \<or> (\<exists>\<delta>\<in>set (transfer_deltas d). subjectId \<delta> = s \<and> PF s (ledgerId \<delta>))"
    by auto
  finally show ?thesis
    by (simp only: set_map)
qed


lemma sale_lines_transaction:
  "(t, st, str, pr) \<in> set (sale_lines d) \<Longrightarrow> t \<in> set (transactions d)"
  by (auto simp: sale_lines_def split: if_splits)



lemma updateBalances_lookup:
  "balance (updateBalances params d) s =
    (let moneys = (case params of
                     Some p \<Rightarrow> moneys_in (params_ids p) d (max_transaction_id d) (max_transfer_id d)
                   | None \<Rightarrow> moneys_all d (max_transaction_id d) (max_transfer_id d))
     in if s \<in> set (map fst moneys)
        then Some \<lparr>b_amount = sum_list [a. (i, a) \<leftarrow> moneys, i = s],
                   b_lastTransaction = max_transaction_id d,
                   b_lastTransfer = max_transfer_id d\<rparr>
        else balance d s)"
  by (simp add: updateBalances_def lastIds_max refresh_rows_keyed replace_into_balance_keyed Let_def)




section \<open>Refreshing twice\<close>

lemma lastIds_balance [simp]: "lastIds (d\<lparr>balance := m\<rparr>) = lastIds d"
  by (simp add: lastIds_def)

lemma refresh_rows_balance [simp]:
  "refresh_rows params (d\<lparr>balance := m\<rparr>) T F = refresh_rows params d T F"
  by (cases params)
     (simp_all add: refresh_rows_def moneys_all_def moneys_in_def cong del: if_weak_cong)

lemma replace_into_balance_twice:
  "replace_into_balance (replace_into_balance m rows) rows = replace_into_balance m rows"
  by (simp add: replace_into_balance_map_add fun_eq_iff map_add_def split: option.split)

text \<open>
  C4: updateBalances run twice in a row, with the same \<open>params\<close> and the ledger as it
  was, leaves the database as one run does: the statement replaces whole rows and reads
  nothing of the \<open>balance\<close> table.
\<close>

theorem updateBalances_idempotent:
  "updateBalances params (updateBalances params d) = updateBalances params d"
proof (cases "lastIds d")
  case (Pair transactionMax transferMax)
  then show ?thesis
    by (cases transactionMax; cases transferMax)
       (simp_all add: updateBalances_def replace_into_balance_twice)
qed

section \<open>Refreshing a set of subjects\<close>





section \<open>Checkpoints over time\<close>

lemma refreshed_subjects_lookup:
  assumes "s \<in> set (refreshed_subjects params d)"
  shows "\<exists>a. balance (updateBalances params d) s =
           Some \<lparr>b_amount = a, b_lastTransaction = max_transaction_id d,
                 b_lastTransfer = max_transfer_id d\<rparr>"
  using assms
  by (simp add: refreshed_subjects_def lastIds_max refresh_rows_keyed updateBalances_lookup
        comp_def Let_def)

lemma Max_append_new:
  fixes xs ys :: "int list"
  assumes "list_all (\<lambda>y. Max (set (0 # xs)) < y) ys"
  shows "Max (set (0 # xs)) < Max (set (0 # xs @ ys)) \<longleftrightarrow> ys \<noteq> []"
proof (cases ys)
  case Nil
  then show ?thesis by simp
next
  case (Cons y ys')
  then have "Max (set (0 # xs)) < y" using assms by (simp del: set_simps Max_insert)
  moreover have "y \<le> Max (set (0 # xs @ ys))"
    by (rule Max_ge) (simp_all add: Cons)
  ultimately have "Max (set (0 # xs)) < Max (set (0 # xs @ ys))"
    by (rule less_le_trans)
  moreover have "ys \<noteq> []" using Cons by simp
  ultimately show ?thesis by blast
qed

lemma max_transaction_id_grows:
  assumes "transactions d2 = transactions d1 @ newT"
    and "list_all (\<lambda>t. max_transaction_id d1 < t_id t) newT"
  shows "max_transaction_id d1 < max_transaction_id d2 \<longleftrightarrow> newT \<noteq> []"
  using Max_append_new [of "map t_id (transactions d1)" "map t_id newT"] assms
  by (simp add: max_transaction_id_def list_all_iff)

lemma max_transfer_id_grows:
  assumes "transfers d2 = transfers d1 @ newF"
    and "list_all (\<lambda>f. max_transfer_id d1 < tf_id f) newF"
  shows "max_transfer_id d1 < max_transfer_id d2 \<longleftrightarrow> newF \<noteq> []"
  using Max_append_new [of "map tf_id (transfers d1)" "map tf_id newF"] assms
  by (simp add: max_transfer_id_def list_all_iff)

text \<open>
  C6: let the ledgers grow so that their largest ids do not decrease. A row that
  updateBalances writes for a subject after the growth carries checkpoints at least
  those of a row it wrote for the subject before. When the growth of a ledger is an
  append of rows with ids above the old largest id, its checkpoint is strictly larger
  exactly when rows were appended, and equal otherwise.
\<close>

theorem checkpoints_monotone:
  assumes "max_transaction_id d1 \<le> max_transaction_id d2"
    and "max_transfer_id d1 \<le> max_transfer_id d2"
    and "s \<in> set (refreshed_subjects p1 d1)"
    and "s \<in> set (refreshed_subjects p2 d2)"
  shows "\<exists>b1 b2.
           balance (updateBalances p1 d1) s = Some b1 \<and>
           balance (updateBalances p2 d2) s = Some b2 \<and>
           b_lastTransaction b1 \<le> b_lastTransaction b2 \<and>
           b_lastTransfer b1 \<le> b_lastTransfer b2 \<and>
           (\<forall>newT. transactions d2 = transactions d1 @ newT \<and>
                   list_all (\<lambda>t. max_transaction_id d1 < t_id t) newT \<longrightarrow>
                   (b_lastTransaction b1 < b_lastTransaction b2 \<longleftrightarrow> newT \<noteq> [])) \<and>
           (\<forall>newF. transfers d2 = transfers d1 @ newF \<and>
                   list_all (\<lambda>f. max_transfer_id d1 < tf_id f) newF \<longrightarrow>
                   (b_lastTransfer b1 < b_lastTransfer b2 \<longleftrightarrow> newF \<noteq> []))"
proof -
  from refreshed_subjects_lookup [OF assms(3)] obtain a1 where
    b1: "balance (updateBalances p1 d1) s =
           Some \<lparr>b_amount = a1, b_lastTransaction = max_transaction_id d1,
                 b_lastTransfer = max_transfer_id d1\<rparr>" ..
  from refreshed_subjects_lookup [OF assms(4)] obtain a2 where
    b2: "balance (updateBalances p2 d2) s =
           Some \<lparr>b_amount = a2, b_lastTransaction = max_transaction_id d2,
                 b_lastTransfer = max_transfer_id d2\<rparr>" ..
  show ?thesis
    unfolding b1 b2
    using assms(1,2) by (simp add: max_transaction_id_grows max_transfer_id_grows)
qed








theorem checkpoints_monotone_witness:
  "max_transaction_id example_db \<le> max_transaction_id example_db_later \<and>
   max_transfer_id example_db \<le> max_transfer_id example_db_later \<and>
   10 \<in> set (refreshed_subjects None example_db) \<and>
   10 \<in> set (refreshed_subjects None example_db_later) \<and>
   (\<exists>b1 b2.
      balance (updateBalances None example_db) 10 = Some b1 \<and>
      balance (updateBalances None example_db_later) 10 = Some b2 \<and>
      b_lastTransaction b1 < b_lastTransaction b2 \<and>
      b_lastTransfer b1 = b_lastTransfer b2)"
proof -
  have m: "max_transaction_id example_db = 1" "max_transfer_id example_db = 2"
    "max_transaction_id example_db_later = 2" "max_transfer_id example_db_later = 2"
    by (simp_all add: max_transaction_id_def max_transfer_id_def example_db_later_def
          example_db_def)
  have m1: "moneys_all example_db 1 2
      = [(10, - 450), (20, 450), (30, - 1000), (40, 1000), (50, 500)]"
    by (simp add: moneys_all_def example_db_def not_null_def)
  have m2: "moneys_all example_db_later 2 2
      = [(10, - 450), (20, - 175), (20, 450), (10, 175), (30, - 1000), (40, 1000), (50, 500)]"
    by (simp add: moneys_all_def example_db_later_def example_db_def not_null_def)
  have r1: "10 \<in> set (refreshed_subjects None example_db)"
    by (simp add: refreshed_subjects_def lastIds_max m refresh_rows_keyed m1)
  have r2: "10 \<in> set (refreshed_subjects None example_db_later)"
    by (simp add: refreshed_subjects_def lastIds_max m refresh_rows_keyed m2)
  have le: "max_transaction_id example_db \<le> max_transaction_id example_db_later"
    "max_transfer_id example_db \<le> max_transfer_id example_db_later"
    by (simp_all add: m)
  from checkpoints_monotone [OF le r1 r2] obtain b1 b2 where
    b: "balance (updateBalances None example_db) 10 = Some b1"
       "balance (updateBalances None example_db_later) 10 = Some b2"
    and newT: "\<And>newT. transactions example_db_later = transactions example_db @ newT \<Longrightarrow>
           list_all (\<lambda>t. max_transaction_id example_db < t_id t) newT \<Longrightarrow>
           (b_lastTransaction b1 < b_lastTransaction b2) = (newT \<noteq> [])"
    and newF: "\<And>newF. transfers example_db_later = transfers example_db @ newF \<Longrightarrow>
           list_all (\<lambda>f. max_transfer_id example_db < tf_id f) newF \<Longrightarrow>
           (b_lastTransfer b1 < b_lastTransfer b2) = (newF \<noteq> [])"
    and leF: "b_lastTransfer b1 \<le> b_lastTransfer b2"
    by blast
  have "b_lastTransaction b1 < b_lastTransaction b2"
    using newT [of "[\<lparr>t_id = 2, t_fromId = 20\<rparr>]"] by (simp add: example_db_later_def m)
  moreover have "\<not> b_lastTransfer b1 < b_lastTransfer b2"
    using newF [of "[]"] by (simp add: example_db_later_def)
  ultimately show ?thesis
    using b leF le r1 r2 by simp
qed


section \<open>The result set of getBalances\<close>

lemma concat_map_Nil: "concat (map (\<lambda>x. []) xs) = []"
  by (induction xs) simp_all

lemma moneys2_empty_ids: "moneys2 (Some []) d = []"
  by (simp add: moneys2_def user_join_moneys_def opt_in_def sql_in_def concat_map_Nil)

text \<open>
  C8, as stated, fails: for the empty subject set getBalances does not return the empty
  list.
\<close>

theorem getBalances_empty_ids_counterexample:
  "getBalances (Some []) example_db \<noteq> Inr []"
  by (simp add: getBalances_def balances_query_def moneys2_empty_ids)

text \<open>
  C8, amended: a request for the empty subject set selects no user, the result set is
  empty, and the guard after the query fails; the call ends in an error whatever the
  database holds.
\<close>

theorem getBalances_empty_ids_fails: "\<exists>e. getBalances (Some []) d = Inl e"
  by (simp add: getBalances_def balances_query_def moneys2_empty_ids)

lemma moneys2_joined:
  "moneys2 ids d =
     map (\<lambda>k. (k,
                    coalesce (sql_sum [v. (u, v) \<leftarrow> user_join_moneys ids d, u = k]) 0,
                    sql_count [v. (u, v) \<leftarrow> user_join_moneys ids d, u = k]))
             (remdups (map fst (user_join_moneys ids d)))"
  by (simp add: moneys2_def Let_def)

lemma user_join_moneys_fst: "fst ` set (user_join_moneys ids d) \<subseteq> set (users d)"
  by (auto simp: user_join_moneys_def split: if_splits)

lemma moneys2_ids: "k \<in> set (map fst (moneys2 ids d)) \<Longrightarrow> k \<in> set (users d)"
  using user_join_moneys_fst [of ids d] by (auto simp: moneys2_joined comp_def)

lemma balances_query_ids: "r \<in> set (balances_query ids d) \<Longrightarrow> raw_id r \<in> set (users d)"
  using moneys2_ids [of _ ids d] by (force simp: balances_query_def Let_def)

lemma getBalances_ids:
  assumes "getBalances ids d = Inr rs" and "r \<in> set rs"
  shows "r_id r \<in> set (users d)"
  using assms balances_query_ids [of _ ids d]
  by (auto simp: getBalances_def Let_def asBalanceResponse_def split: if_splits list.splits)

lemma user_join_moneys_absent:
  assumes "s \<notin> set (users d)"
  shows "user_join_moneys (Some [s]) d = []"
proof -
  have "\<And>u. u \<in> set (users d) \<Longrightarrow> \<not> opt_in (Some u) (Some [s])"
    using assms by (auto simp: opt_in_def sql_in_def)
  then show ?thesis
    by (simp add: user_join_moneys_def)
qed

lemma getBalance_absent:
  assumes "s \<notin> set (users d)"
  shows "getBalance s d = Inl TypeError"
  by (simp add: getBalance_def getBalances_def balances_query_def moneys2_joined
        user_join_moneys_absent [OF assms])

text \<open>
  C10: the query of getBalances is rooted in the \<open>user\<close> table. For an id that is not a
  user, no result of getBalances holds an entry, and getBalance fails: the implicit zero
  snapshot is for users only.
\<close>

theorem getBalances_rooted_in_users:
  assumes "s \<notin> set (users d)"
  shows "(\<forall>ids rs. getBalances ids d = Inr rs \<longrightarrow> s \<notin> set (map r_id rs)) \<and>
         (\<exists>e. getBalance s d = Inl e)"
  using assms getBalances_ids [of _ d] getBalance_absent [OF assms] by auto


lemma example_db_users: "users example_db = [10, 20, 30, 40, 50, 60]"
  by (simp add: example_db_def)

lemma example_getBalances:
  "getBalances (Some [10, 99]) example_db =
     Inr [\<lparr>r_id = 10, r_amount = - 450, r_lastTransactionId = None,
           r_lastTransferId = None\<rparr>]"
  by (simp add: getBalances_def balances_query_def moneys2_def user_join_moneys_def
        moneys_pending_def example_db_def opt_in_def sql_in_def left_join_balance_def
        left_join_values_def coalesce_def sql_count_def asBalanceResponse_def)

theorem getBalances_rooted_in_users_witness:
  "99 \<notin> set (users example_db) \<and>
   (\<exists>rs. getBalances (Some [10, 99]) example_db = Inr rs \<and> 99 \<notin> set (map r_id rs)) \<and>
   (\<exists>e. getBalance 99 example_db = Inl e)"
proof -
  have u: "99 \<notin> set (users example_db)"
    by (simp add: example_db_users)
  show ?thesis
    using getBalances_rooted_in_users [OF u] u example_getBalances by blast
qed

section \<open>The balance that getBalance returns\<close>


























section \<open>Deleting a snapshot\<close>

lemma delta_total_split:
  "delta_total (\<lambda>\<delta>. subjectId \<delta> = s \<and> ledgerId \<delta> \<le> k) ds
   + delta_total (\<lambda>\<delta>. subjectId \<delta> = s \<and> k < ledgerId \<delta>) ds
   = delta_total (\<lambda>\<delta>. subjectId \<delta> = s) ds"
  by (induction ds) (auto simp: delta_total_def)

lemma transaction_deltas_positive:
  assumes "ledger_ids_positive d" and "\<delta> \<in> set (transaction_deltas d)"
  shows "0 < ledgerId \<delta>"
proof -
  from assms(2) obtain t st str pr where l: "(t, st, str, pr) \<in> set (sale_lines d)"
    and "ledgerId \<delta> = t_id t"
    by (auto simp: transaction_deltas_def)
  with sale_lines_transaction [OF l] assms(1) show ?thesis
    by (simp add: ledger_ids_positive_def list_all_iff)
qed

lemma transfer_deltas_positive:
  assumes "ledger_ids_positive d" and "\<delta> \<in> set (transfer_deltas d)"
  shows "0 < ledgerId \<delta>"
proof -
  from assms(2) obtain f where "f \<in> set (transfers d)" and "ledgerId \<delta> = tf_id f"
    by (auto simp: transfer_deltas_def split: option.splits)
  with assms(1) show ?thesis
    by (simp add: ledger_ids_positive_def list_all_iff)
qed

lemma pending_after_zero:
  assumes "ledger_ids_positive d"
  shows "pending_after d s 0 0 = aggregate_upto d s T F + pending_after d s T F"
proof -
  have "delta_total (\<lambda>\<delta>. subjectId \<delta> = s \<and> 0 < ledgerId \<delta>) (transaction_deltas d)
      = delta_total (\<lambda>\<delta>. subjectId \<delta> = s) (transaction_deltas d)"
    by (rule delta_total_cong) (simp add: transaction_deltas_positive [OF assms])
  moreover have "delta_total (\<lambda>\<delta>. subjectId \<delta> = s \<and> 0 < ledgerId \<delta>) (transfer_deltas d)
      = delta_total (\<lambda>\<delta>. subjectId \<delta> = s) (transfer_deltas d)"
    by (rule delta_total_cong) (simp add: transfer_deltas_positive [OF assms])
  ultimately show ?thesis
    unfolding pending_after_def aggregate_upto_def
    using delta_total_split [of s T "transaction_deltas d"]
      delta_total_split [of s F "transfer_deltas d"]
    by simp
qed

lemma sale_lines_balance [simp]: "sale_lines (d\<lparr>balance := m\<rparr>) = sale_lines d"
  by (simp add: sale_lines_def cong del: if_weak_cong)

lemma deltas_balance [simp]:
  "transaction_deltas (d\<lparr>balance := m\<rparr>) = transaction_deltas d"
  "transfer_deltas (d\<lparr>balance := m\<rparr>) = transfer_deltas d"
  by (simp_all add: transaction_deltas_def transfer_deltas_def)

lemma totals_balance [simp]:
  "pending_after (d\<lparr>balance := m\<rparr>) s T F = pending_after d s T F"
  "aggregate_upto (d\<lparr>balance := m\<rparr>) s T F = aggregate_upto d s T F"
  by (simp_all add: pending_after_def aggregate_upto_def)

lemma constraints_balance [simp]:
  "sub_transaction_fk (d\<lparr>balance := m\<rparr>) = sub_transaction_fk d"
  "ledger_ids_positive (d\<lparr>balance := m\<rparr>) = ledger_ids_positive d"
  by (simp_all add: sub_transaction_fk_def ledger_ids_positive_def)

lemma clearBalanceCache_update:
  "clearBalanceCache a d = d\<lparr>balance := balance (clearBalanceCache a d)\<rparr>"
  by (simp add: clearBalanceCache_def split: option.split)

lemma clearBalanceCache_users [simp]: "users (clearBalanceCache a d) = users d"
  by (subst clearBalanceCache_update) simp

lemma clearBalanceCache_fk [simp]:
  "sub_transaction_fk (clearBalanceCache a d) = sub_transaction_fk d"
  by (subst clearBalanceCache_update) simp

lemma clearBalanceCache_pending [simp]:
  "pending_after (clearBalanceCache a d) s T F = pending_after d s T F"
  by (subst clearBalanceCache_update) simp


lemma clearBalanceCache_Many:
  "s \<in> set xs \<Longrightarrow> balance (clearBalanceCache (Some (Many xs)) d) s = None"
  by (simp add: clearBalanceCache_def)

lemma clearBalanceCache_all: "balance (clearBalanceCache None d) s = None"
  by (simp add: clearBalanceCache_def)





text \<open>
  Exact snapshots are what the service leaves. A missing row is exact, a row that
  updateBalances writes is exact, and a snapshot it does not touch stays exact.
\<close>

lemma absent_snapshot_exact:
  assumes "ledger_ids_positive d" and "balance d s = None"
  shows "snapshot_exact d s"
proof -
  have "aggregate_upto d s 0 0 + pending_after d s 0 0 = pending_after d s 0 0"
    using pending_after_zero [OF assms(1), of s 0 0] by simp
  then show ?thesis
    by (simp add: snapshot_exact_def snapshot_def assms(2))
qed

lemma updateBalances_update:
  "updateBalances params d = d\<lparr>balance := balance (updateBalances params d)\<rparr>"
  by (simp add: updateBalances_def lastIds_max)

lemma updateBalances_exact:
  assumes "sub_transaction_fk d"
    and "s \<in> set (refreshed_subjects params d) \<or> snapshot_exact d s"
  shows "snapshot_exact (updateBalances params d) s"
proof -
  let ?T = "max_transaction_id d" and ?F = "max_transfer_id d"
  let ?moneys = "case params of
                   Some p \<Rightarrow> moneys_in (params_ids p) d ?T ?F
                 | None \<Rightarrow> moneys_all d ?T ?F"
  have agg: "aggregate_upto (updateBalances params d) s T F = aggregate_upto d s T F" for T F
    by (subst updateBalances_update) simp
  have keys: "set (refreshed_subjects params d) = set (map fst ?moneys)"
    by (simp add: refreshed_subjects_def lastIds_max refresh_rows_keyed comp_def)
  show ?thesis
  proof (cases "s \<in> set (map fst ?moneys)")
    case True
    have "sum_list [a. (i, a) \<leftarrow> ?moneys, i = s] = aggregate_upto d s ?T ?F"
    proof (cases params)
      case None
      then show ?thesis
        by (simp add: moneys_all_where moneys_where_total [OF assms(1)] aggregate_upto_def)
    next
      case (Some p)
      with True have "s \<in> set (params_ids p)"
        by (simp only: option.case moneys_in_where moneys_where_ids [OF assms(1)]) blast
      with Some show ?thesis
        by (simp add: moneys_in_where moneys_where_total [OF assms(1)] aggregate_upto_def)
    qed
    with True show ?thesis
      by (simp add: snapshot_exact_def snapshot_def agg updateBalances_lookup del: set_map)
  next
    case False
    with assms(2) keys have "snapshot_exact d s" by simp
    moreover from False have "balance (updateBalances params d) s = balance d s"
      by (simp add: updateBalances_lookup del: set_map)
    ultimately show ?thesis
      by (simp add: snapshot_exact_def snapshot_def agg)
  qed
qed


end
